theory Spec2Isabelle
  imports Main
begin

section \<open>cp-file: copying one file, asynchronously and synchronously\<close>

text \<open>
  A shallow embedding of \<^verbatim>\<open>src/index.js\<close>. The module copies one file; it has an
  asynchronous entry point (\<^verbatim>\<open>cpFile\<close>, built on \<^verbatim>\<open>cpFileAsync\<close>) and a synchronous one
  (\<^verbatim>\<open>module.exports.sync\<close>).

  The code is control flow around filesystem primitives. The primitives themselves
  (\<^verbatim>\<open>./fs\<close>, Node's \<^verbatim>\<open>fs\<close> and \<^verbatim>\<open>path\<close>, \<^verbatim>\<open>p-event\<close>) are not part of
  \<^verbatim>\<open>index.js\<close>; they are parameters of the model, gathered in the record \<open>fs_ops\<close>. Each
  primitive reads an abstract world \<open>'w\<close> and returns its result together with the world it
  leaves behind, so a later call may answer differently from an earlier one. Every call the
  code makes is appended to a log, in program order, which is what the statements about
  "before", "never" and "without touching the filesystem" are about.
\<close>

subsection \<open>Errors\<close>

type_synonym path = string

text \<open>
  A JavaScript error object, reduced to the properties the module reads or writes:
  \<^verbatim>\<open>message\<close>, \<^verbatim>\<open>code\<close>, \<^verbatim>\<open>errno\<close>, \<^verbatim>\<open>source\<close>, and the nested (originating) error.
\<close>

datatype js_error =
  JsError (err_message: string) (err_code: "string option") (err_errno: "int option")
          (err_source: "path option") (err_nested: "js_error option")

text \<open>
  Modelled from the spec: the class \<^verbatim>\<open>CpFileError\<close> of \<^verbatim>\<open>./cp-file-error\<close> is not in
  \<^verbatim>\<open>src/\<close>. Section 4.1 of the specification: given a message and an originating error it
  produces one error value that stringifies to the message, exposes the originating error's
  machine-readable code, and retains a reference to the originating error. The second
  argument is absent (\<open>None\<close>) where the code calls \<^verbatim>\<open>new CpFileError(message)\<close>.
\<close>

definition CpFileError :: "string \<Rightarrow> js_error option \<Rightarrow> js_error" where
  "CpFileError msg nested_error =
     JsError msg (case nested_error of None \<Rightarrow> None | Some e \<Rightarrow> err_code e) None None nested_error"

subsection \<open>Data\<close>

text \<open>What the code reads from the result of \<^verbatim>\<open>lstat\<close>. Timestamps are milliseconds.\<close>

record stats =
  isDirectory :: bool
  isSymbolicLink :: bool
  size_st :: nat
  mode :: nat
  atime :: int
  mtime :: int

text \<open>
  The options object as the caller supplies it (a property is \<open>None\<close> when the caller left it
  out; an omitted options argument is the object with both left out), and as
  \<^verbatim>\<open>normalizeOptions\<close> returns it.
\<close>

record supplied_options =
  supplied_overwrite :: "bool option"
  supplied_followSymlinks :: "bool option"

record options =
  overwrite :: bool
  followSymlinks :: bool

definition normalizeOptions :: "supplied_options \<Rightarrow> options" where
  "normalizeOptions opts =
     \<lparr> overwrite = (case supplied_overwrite opts of None \<Rightarrow> True | Some b \<Rightarrow> b),
       followSymlinks = (case supplied_followSymlinks opts of None \<Rightarrow> True | Some b \<Rightarrow> b) \<rparr>"

text \<open>The third argument of \<^verbatim>\<open>copyFileSync\<close>: \<^verbatim>\<open>null\<close> or \<^verbatim>\<open>fsConstants.COPYFILE_EXCL\<close>.\<close>

datatype copy_flags = NoFlags | COPYFILE_EXCL

text \<open>
  The events of one piped transfer, in the order Node delivers them to the listeners that
  \<^verbatim>\<open>cpFileAsync\<close> registers: \<^verbatim>\<open>'data'\<close> on the read stream (carrying the value of
  \<^verbatim>\<open>writeStream.bytesWritten\<close> that the listener reads), \<^verbatim>\<open>'error'\<close> on the read stream, and
  \<^verbatim>\<open>'close'\<close> or \<^verbatim>\<open>'error'\<close> on the write stream.
\<close>

datatype stream_event =
  Data nat
| ReadError js_error
| WriteClose
| WriteError js_error

text \<open>How the promise \<^verbatim>\<open>pEvent(writeStream, 'close')\<close> ends: resolved, rejected, or never.\<close>

datatype write_settlement = Closed | Failed js_error | Unsettled

text \<open>A promise as its caller eventually sees it. \<open>Pending\<close> is a promise that never settles.\<close>

datatype 'a promise = Fulfilled 'a | Rejected js_error | Pending

subsection \<open>The filesystem primitives and the state\<close>

text \<open>One entry of the call log for each primitive the code invokes.\<close>

datatype call =
  Lstat path
| CopyFileSync path path copy_flags
| CreateReadStream path
| MakeDir path
| CreateWriteStream path string
| Pipe path path
| WriteStreamEnd path
| Utimes path int int
| Chmod path nat
| LstatSync path
| ReadlinkSync path
| MakeDirSync path
| UtimesSync path int int

text \<open>
  The primitives. A promise-returning primitive is modelled by how its promise settles
  (\<open>Inl\<close> rejected, \<open>Inr\<close> fulfilled); a synchronous one by whether it throws (\<open>Inl\<close>) or
  returns (\<open>Inr\<close>). \<open>stream_events\<close> stands for what happens after
  \<^verbatim>\<open>readStream.pipe(writeStream)\<close>: the events delivered to the listeners.
  \<open>chmod_rejects_first\<close> says which of two rejections \<^verbatim>\<open>Promise.all\<close> sees first.
\<close>

record 'w fs_ops =
  fs_lstat :: "path \<Rightarrow> 'w \<Rightarrow> (js_error + stats) \<times> 'w"
  fs_copyFileSync :: "path \<Rightarrow> path \<Rightarrow> copy_flags \<Rightarrow> 'w \<Rightarrow> (js_error + unit) \<times> 'w"
  fs_createReadStream :: "path \<Rightarrow> 'w \<Rightarrow> (js_error + unit) \<times> 'w"
  fs_makeDir :: "path \<Rightarrow> 'w \<Rightarrow> (js_error + unit) \<times> 'w"
  fs_createWriteStream :: "path \<Rightarrow> string \<Rightarrow> 'w \<Rightarrow> unit \<times> 'w"
  stream_events :: "path \<Rightarrow> path \<Rightarrow> 'w \<Rightarrow> stream_event list \<times> 'w"
  fs_utimes :: "path \<Rightarrow> int \<Rightarrow> int \<Rightarrow> 'w \<Rightarrow> (js_error + unit) \<times> 'w"
  fs_chmod :: "path \<Rightarrow> nat \<Rightarrow> 'w \<Rightarrow> (js_error + unit) \<times> 'w"
  chmod_rejects_first :: "'w \<Rightarrow> bool"
  fs_lstatSync :: "path \<Rightarrow> 'w \<Rightarrow> (js_error + stats) \<times> 'w"
  fsReadlinkSync :: "path \<Rightarrow> 'w \<Rightarrow> (js_error + path) \<times> 'w"
  fs_makeDirSync :: "path \<Rightarrow> 'w \<Rightarrow> (js_error + unit) \<times> 'w"
  fs_utimesSync :: "path \<Rightarrow> int \<Rightarrow> int \<Rightarrow> 'w \<Rightarrow> (js_error + unit) \<times> 'w"
  path_dirname :: "path \<Rightarrow> path"
  path_resolve :: "path \<Rightarrow> path"

text \<open>
  Modelled from the spec: the class \<^verbatim>\<open>ProgressEmitter\<close> of \<^verbatim>\<open>./progress-emitter\<close> is not in
  \<^verbatim>\<open>src/\<close>. Section 4.2 of the specification: it is constructed with the two resolved paths
  and has two writable fields, \<^verbatim>\<open>size\<close> and \<^verbatim>\<open>writtenBytes\<close> (\<open>None\<close> until first assigned).
\<close>

record progress_emitter =
  pe_sourcePath :: path
  pe_destinationPath :: path
  pe_size :: "nat option"
  pe_writtenBytes :: "nat option"

definition ProgressEmitter :: "path \<Rightarrow> path \<Rightarrow> progress_emitter" where
  "ProgressEmitter sourcePath destinationPath =
     \<lparr> pe_sourcePath = sourcePath, pe_destinationPath = destinationPath,
       pe_size = None, pe_writtenBytes = None \<rparr>"

text \<open>
  The state threaded through the code: the world the primitives act on, the log of the
  calls made so far, and the progress emitter object of the running copy.
\<close>

record 'w state =
  world :: 'w
  calls :: "call list"
  progressEmitter :: progress_emitter

text \<open>Invoking a primitive: log the call, run it on the world, keep the world it returns.\<close>

definition perform :: "call \<Rightarrow> ('w \<Rightarrow> 'a \<times> 'w) \<Rightarrow> 'w state \<Rightarrow> 'a \<times> 'w state" where
  "perform c prim s =
     (case prim (world s) of (r, w') \<Rightarrow> (r, s\<lparr>world := w', calls := calls s @ [c]\<rparr>))"

definition set_size :: "nat \<Rightarrow> 'w state \<Rightarrow> 'w state" where
  "set_size n s = s\<lparr>progressEmitter := (progressEmitter s)\<lparr>pe_size := Some n\<rparr>\<rparr>"

definition set_writtenBytes :: "nat option \<Rightarrow> 'w state \<Rightarrow> 'w state" where
  "set_writtenBytes n s = s\<lparr>progressEmitter := (progressEmitter s)\<lparr>pe_writtenBytes := n\<rparr>\<rparr>"

subsection \<open>The asynchronous copy\<close>

text \<open>
  The two listeners on the read stream (lines 44 to 51) and the delivery of the events to
  them. The \<^verbatim>\<open>'error'\<close> listener is registered with \<^verbatim>\<open>once\<close>: it runs for the first read error
  only, and that run is the one assignment to \<^verbatim>\<open>readError\<close>. Delivery stops at the first
  \<^verbatim>\<open>'close'\<close> or \<^verbatim>\<open>'error'\<close> of the write stream, which settles the awaited promise; when the
  events end without one, the promise never settles.
\<close>

definition on_data :: "nat \<Rightarrow> 'w state \<Rightarrow> 'w state" where
  "on_data bytesWritten s = set_writtenBytes (Some bytesWritten) s"

definition on_read_error ::
  "path \<Rightarrow> path \<Rightarrow> js_error \<Rightarrow> 'w state \<Rightarrow> js_error option \<times> 'w state" where
  "on_read_error source destination error s =
     (Some (CpFileError (''Cannot read from `'' @ source @ ''`: '' @ err_message error) (Some error)),
      s\<lparr>calls := calls s @ [WriteStreamEnd destination]\<rparr>)"

fun deliver ::
  "path \<Rightarrow> path \<Rightarrow> stream_event list \<Rightarrow> js_error option \<Rightarrow> 'w state
     \<Rightarrow> write_settlement \<times> js_error option \<times> 'w state" where
  "deliver source destination [] readError s = (Unsettled, readError, s)"
| "deliver source destination (Data n # evs) readError s =
     deliver source destination evs readError (on_data n s)"
| "deliver source destination (ReadError e # evs) readError s =
     (case readError of
        None \<Rightarrow> (case on_read_error source destination e s of
                   (readError', s') \<Rightarrow> deliver source destination evs readError' s')
      | Some _ \<Rightarrow> deliver source destination evs readError s)"
| "deliver source destination (WriteClose # evs) readError s = (Closed, readError, s)"
| "deliver source destination (WriteError e # evs) readError s = (Failed e, readError, s)"

text \<open>
  \<^verbatim>\<open>Promise.all\<close> of the two metadata promises: fulfilled when both are, rejected with the
  rejection it sees first otherwise.
\<close>

definition promise_all2 :: "bool \<Rightarrow> js_error + unit \<Rightarrow> js_error + unit \<Rightarrow> unit promise" where
  "promise_all2 second_first r1 r2 =
     (case r1 of
        Inr _ \<Rightarrow> (case r2 of Inr _ \<Rightarrow> Fulfilled () | Inl e2 \<Rightarrow> Rejected e2)
      | Inl e1 \<Rightarrow> (case r2 of Inr _ \<Rightarrow> Rejected e1
                            | Inl e2 \<Rightarrow> Rejected (if second_first then e2 else e1)))"

text \<open>
  How the \<^verbatim>\<open>if\<close>/\<^verbatim>\<open>else\<close> of lines 27 to 66 is left: control reaches line 68 with a value of
  \<^verbatim>\<open>shouldUpdateStats\<close>, or the function has thrown, or it waits for ever.
\<close>

datatype flow = Continue bool | Throw js_error | Hang

text \<open>Lines 27 to 38: the source is a symbolic link and links are not followed.\<close>

definition copy_link :: "'w fs_ops \<Rightarrow> path \<Rightarrow> path \<Rightarrow> options \<Rightarrow> 'w state \<Rightarrow> flow \<times> 'w state" where
  "copy_link ops source destination opts s =
     (let flags = (if overwrite opts then NoFlags else COPYFILE_EXCL) in
      case perform (CopyFileSync source destination flags)
                   (fs_copyFileSync ops source destination flags) s of
        (Inl error, s1) \<Rightarrow>
          if \<not> overwrite opts \<and> err_code error = Some ''EEXIST''
          then (Throw (CpFileError (''Cannot write to `'' @ destination @ ''`: ''
                                      @ err_message error) (Some error)), s1)
          else (Continue True, set_writtenBytes (pe_size (progressEmitter s1)) s1)
      | (Inr _, s1) \<Rightarrow>
          (Continue True, set_writtenBytes (pe_size (progressEmitter s1)) s1))"

text \<open>Lines 40 to 65: the streamed copy.\<close>

definition copy_stream :: "'w fs_ops \<Rightarrow> path \<Rightarrow> path \<Rightarrow> options \<Rightarrow> 'w state \<Rightarrow> flow \<times> 'w state" where
  "copy_stream ops source destination opts s =
     (case perform (CreateReadStream source) (fs_createReadStream ops source) s of
        (Inl e, s1) \<Rightarrow> (Throw e, s1)
      | (Inr _, s1) \<Rightarrow>
     (case perform (MakeDir (path_dirname ops destination))
                   (fs_makeDir ops (path_dirname ops destination)) s1 of
        (Inl e, s2) \<Rightarrow> (Throw e, s2)
      | (Inr _, s2) \<Rightarrow>
     (let flags = (if overwrite opts then ''w'' else ''wx'') in
      case perform (CreateWriteStream destination flags)
                   (fs_createWriteStream ops destination flags) s2 of
        (_, s3) \<Rightarrow>
     (case perform (Pipe source destination) (stream_events ops source destination) s3 of
        (events, s4) \<Rightarrow>
     (case deliver source destination events None s4 of
        (Unsettled, readError, s5) \<Rightarrow> (Hang, s5)
      | (Failed error, readError, s5) \<Rightarrow>
          (Throw (CpFileError (''Cannot write to `'' @ destination @ ''`: '' @ err_message error)
                              (Some error)), s5)
      | (Closed, readError, s5) \<Rightarrow>
          (let s6 = set_writtenBytes (pe_size (progressEmitter s5)) s5 in
           case readError of
             Some e \<Rightarrow> (Throw e, s6)
           | None \<Rightarrow> (Continue True, s6)))))))"

text \<open>Lines 68 to 75: the fresh stat of the source and the two metadata updates.\<close>

definition update_stats :: "'w fs_ops \<Rightarrow> path \<Rightarrow> path \<Rightarrow> 'w state \<Rightarrow> unit promise \<times> 'w state" where
  "update_stats ops source destination s =
     (case perform (Lstat source) (fs_lstat ops source) s of
        (Inl e, s1) \<Rightarrow> (Rejected e, s1)
      | (Inr stats, s1) \<Rightarrow>
     (case perform (Utimes destination (atime stats) (mtime stats))
                   (fs_utimes ops destination (atime stats) (mtime stats)) s1 of
        (r1, s2) \<Rightarrow>
     (case perform (Chmod destination (mode stats)) (fs_chmod ops destination (mode stats)) s2 of
        (r2, s3) \<Rightarrow> (promise_all2 (chmod_rejects_first ops (world s3)) r1 r2, s3))))"

definition cpFileAsync ::
  "'w fs_ops \<Rightarrow> path \<Rightarrow> path \<Rightarrow> options \<Rightarrow> 'w state \<Rightarrow> unit promise \<times> 'w state" where
  "cpFileAsync ops source destination opts s =
     (case perform (Lstat source) (fs_lstat ops source) s of
        (Inl e, s1) \<Rightarrow> (Rejected e, s1)
      | (Inr stat, s1) \<Rightarrow>
     (let s2 = set_size (size_st stat) s1 in
      case (if isSymbolicLink stat \<and> \<not> followSymlinks opts
            then copy_link ops source destination opts s2
            else copy_stream ops source destination opts s2) of
        (Throw e, s3) \<Rightarrow> (Rejected e, s3)
      | (Hang, s3) \<Rightarrow> (Pending, s3)
      | (Continue shouldUpdateStats, s3) \<Rightarrow>
          if shouldUpdateStats then update_stats ops source destination s3
          else (Fulfilled (), s3)))"

text \<open>
  A path argument is \<open>None\<close> when the caller passed none; \<^verbatim>\<open>!sourcePath\<close> holds for a
  missing path and for the empty string.
\<close>

definition falsy :: "path option \<Rightarrow> bool" where
  "falsy p = (case p of None \<Rightarrow> True | Some str \<Rightarrow> str = [])"

text \<open>
  Lines 78 to 94. The result is \<open>Inl\<close> for an exception thrown by the call itself and
  \<open>Inr\<close> for the promise it returns. The \<^verbatim>\<open>on\<close> method added to the promise only forwards
  to the emitter and is left out.
\<close>

definition cpFile ::
  "'w fs_ops \<Rightarrow> path option \<Rightarrow> path option \<Rightarrow> supplied_options \<Rightarrow> 'w state
     \<Rightarrow> (js_error + unit promise) \<times> 'w state" where
  "cpFile ops sourcePath destinationPath opts s =
     (if falsy sourcePath \<or> falsy destinationPath
      then (Inr (Rejected (CpFileError ''`source` and `destination` required'' None)), s)
      else
        (let options = normalizeOptions opts;
             s1 = s\<lparr>progressEmitter := ProgressEmitter (path_resolve ops (the sourcePath))
                                                         (path_resolve ops (the destinationPath))\<rparr>
         in case cpFileAsync ops (the sourcePath) (the destinationPath) options s1 of
              (promise, s2) \<Rightarrow> (Inr promise, s2)))"

subsection \<open>The synchronous copy\<close>

text \<open>
  The quotation marks around the path in the message are the character U+2019, here as
  its three UTF-8 bytes.
\<close>

definition rsquo :: string where
  "rsquo = [CHR 0xE2, CHR 0x80, CHR 0x99]"

definition checkSourceIsFile :: "stats \<Rightarrow> path \<Rightarrow> js_error + unit" where
  "checkSourceIsFile stat source =
     (if isDirectory stat
      then (case CpFileError (''EISDIR: illegal operation on a directory '' @ rsquo @ source @ rsquo)
                             None of
              JsError m _ _ _ n \<Rightarrow> Inl (JsError m (Some ''EISDIR'') (Some (- 21)) (Some source) n))
      else Inr ())"

definition sync ::
  "'w fs_ops \<Rightarrow> path option \<Rightarrow> path option \<Rightarrow> supplied_options \<Rightarrow> 'w state
     \<Rightarrow> (js_error + unit) \<times> 'w state" where
  "sync ops source destination opts s =
     (if falsy source \<or> falsy destination
      then (Inl (CpFileError ''`source` and `destination` required'' None), s)
      else
     (let options = normalizeOptions opts in
      case perform (LstatSync (the source)) (fs_lstatSync ops (the source)) s of
        (Inl e, s1) \<Rightarrow> (Inl e, s1)
      | (Inr stat, s1) \<Rightarrow>
     (case checkSourceIsFile stat (the source) of
        Inl e \<Rightarrow> (Inl e, s1)
      | Inr _ \<Rightarrow>
     (case (if isSymbolicLink stat \<and> followSymlinks options
            then perform (ReadlinkSync (the source)) (fsReadlinkSync ops (the source)) s1
            else (Inr (the source), s1)) of
        (Inl e, s2) \<Rightarrow> (Inl e, s2)
      | (Inr source', s2) \<Rightarrow>
     (case perform (MakeDirSync (path_dirname ops (the destination)))
                   (fs_makeDirSync ops (path_dirname ops (the destination))) s2 of
        (Inl e, s3) \<Rightarrow> (Inl e, s3)
      | (Inr _, s3) \<Rightarrow>
     (let flags = (if overwrite options then NoFlags else COPYFILE_EXCL) in
      case perform (CopyFileSync source' (the destination) flags)
                   (fs_copyFileSync ops source' (the destination) flags) s3 of
        (Inl error, s4) \<Rightarrow>
          if \<not> overwrite options \<and> err_code error = Some ''EEXIST''
          then (Inr (), s4)
          else (Inl error, s4)
      | (Inr _, s4) \<Rightarrow>
          perform (UtimesSync (the destination) (atime stat) (mtime stat))
                  (fs_utimesSync ops (the destination) (atime stat) (mtime stat)) s4))))))"

subsection \<open>Reading an event sequence\<close>

text \<open>
  Two readings of an event sequence, used to state what \<open>deliver\<close> does: how the write
  stream settles (its first \<^verbatim>\<open>'close'\<close> or \<^verbatim>\<open>'error'\<close>), and the first read error delivered
  before that.
\<close>

fun settlement :: "stream_event list \<Rightarrow> write_settlement" where
  "settlement [] = Unsettled"
| "settlement (WriteClose # evs) = Closed"
| "settlement (WriteError e # evs) = Failed e"
| "settlement (Data n # evs) = settlement evs"
| "settlement (ReadError e # evs) = settlement evs"

fun read_failure :: "stream_event list \<Rightarrow> js_error option" where
  "read_failure [] = None"
| "read_failure (ReadError e # evs) = Some e"
| "read_failure (WriteClose # evs) = None"
| "read_failure (WriteError e # evs) = None"
| "read_failure (Data n # evs) = read_failure evs"

text \<open>The calls that a run added to the log.\<close>

definition new_calls :: "'w state \<Rightarrow> 'w state \<Rightarrow> call list" where
  "new_calls s s' = drop (length (calls s)) (calls s')"

fun is_ReadlinkSync :: "call \<Rightarrow> bool" where
  "is_ReadlinkSync (ReadlinkSync p) = True"
| "is_ReadlinkSync c = False"

text \<open>A run from \<open>s\<close> to \<open>s'\<close> only appended to the log, and appended no \<open>ReadlinkSync\<close>.\<close>

definition adds_no_readlink :: "'w state \<Rightarrow> 'w state \<Rightarrow> bool" where
  "adds_no_readlink s s' = (\<exists>tr. calls s' = calls s @ tr \<and> filter is_ReadlinkSync tr = [])"

subsection \<open>A filesystem for concrete runs\<close>

text \<open>
  A filesystem in which every primitive succeeds and the source is a regular file of five
  bytes. Its world is the journal of the changes made to it: a primitive that only reads
  leaves the world as it is, one that writes appends its call. Concrete runs below replace
  single primitives of it; a primitive that is made to fail changes nothing.
\<close>

definition regular_file :: stats where
  "regular_file = \<lparr> isDirectory = False, isSymbolicLink = False, size_st = 5, mode = 420,
                      atime = 1000, mtime = 2000 \<rparr>"

definition symbolic_link :: stats where
  "symbolic_link = \<lparr> isDirectory = False, isSymbolicLink = True, size_st = 6, mode = 511,
                       atime = 30, mtime = 40 \<rparr>"

definition directory :: stats where
  "directory = \<lparr> isDirectory = True, isSymbolicLink = False, size_st = 4096, mode = 493,
                   atime = 7, mtime = 8 \<rparr>"

definition dirname_posix :: "path \<Rightarrow> path" where
  "dirname_posix p = rev (drop 1 (dropWhile (\<lambda>c. c \<noteq> CHR ''/'') (rev p)))"

definition ok_ops :: "call list fs_ops" where
  "ok_ops =
     \<lparr> fs_lstat = (\<lambda>p w. (Inr regular_file, w)),
       fs_copyFileSync = (\<lambda>src dst flags w. (Inr (), w @ [CopyFileSync src dst flags])),
       fs_createReadStream = (\<lambda>p w. (Inr (), w)),
       fs_makeDir = (\<lambda>p w. (Inr (), w @ [MakeDir p])),
       fs_createWriteStream = (\<lambda>p flags w. ((), w @ [CreateWriteStream p flags])),
       stream_events = (\<lambda>src dst w. ([Data 5, WriteClose], w @ [Pipe src dst])),
       fs_utimes = (\<lambda>p a m w. (Inr (), w @ [Utimes p a m])),
       fs_chmod = (\<lambda>p m w. (Inr (), w @ [Chmod p m])),
       chmod_rejects_first = (\<lambda>w. False),
       fs_lstatSync = (\<lambda>p w. (Inr regular_file, w)),
       fsReadlinkSync = (\<lambda>p w. (Inr ''target.txt'', w)),
       fs_makeDirSync = (\<lambda>p w. (Inr (), w @ [MakeDirSync p])),
       fs_utimesSync = (\<lambda>p a m w. (Inr (), w @ [UtimesSync p a m])),
       path_dirname = dirname_posix,
       path_resolve = (\<lambda>p. ''/cwd/'' @ p) \<rparr>"

definition start :: "call list state" where
  "start = \<lparr> world = [], calls = [], progressEmitter = ProgressEmitter [] [] \<rparr>"

text \<open>Whether a journal entry writes the file at the given path.\<close>

fun writes_file :: "path \<Rightarrow> call \<Rightarrow> bool" where
  "writes_file p (CopyFileSync src dst flags) = (dst = p)"
| "writes_file p (CreateWriteStream dst flags) = (dst = p)"
| "writes_file p (Pipe src dst) = (dst = p)"
| "writes_file p (Utimes dst a m) = (dst = p)"
| "writes_file p (Chmod dst m) = (dst = p)"
| "writes_file p (UtimesSync dst a m) = (dst = p)"
| "writes_file p c = False"

definition EEXIST :: js_error where
  "EEXIST = JsError ''EEXIST: file already exists'' (Some ''EEXIST'') (Some (- 17)) None None"

definition ENOENT :: js_error where
  "ENOENT = JsError ''ENOENT: no such file or directory'' (Some ''ENOENT'') (Some (- 2)) None None"

definition ENOSPC :: js_error where
  "ENOSPC = JsError ''ENOSPC: no space left on device'' (Some ''ENOSPC'') (Some (- 28)) None None"

definition EIO :: js_error where
  "EIO = JsError ''EIO: i/o error'' (Some ''EIO'') (Some (- 5)) None None"

definition no_options :: supplied_options where
  "no_options = \<lparr> supplied_overwrite = None, supplied_followSymlinks = None \<rparr>"

definition keep_existing :: supplied_options where
  "keep_existing = \<lparr> supplied_overwrite = Some False, supplied_followSymlinks = None \<rparr>"

definition keep_links_exclusive :: supplied_options where
  "keep_links_exclusive = \<lparr> supplied_overwrite = Some False, supplied_followSymlinks = Some False \<rparr>"

text \<open>
  A filesystem whose source is a symbolic link with a missing target, so that
  \<^verbatim>\<open>copyFileSync\<close> fails with \<open>ENOENT\<close> and changes nothing, while the destination is
  there and its metadata can be updated.
\<close>

definition dangling_link_ops :: "call list fs_ops" where
  "dangling_link_ops = ok_ops\<lparr> fs_lstat := (\<lambda>p w. (Inr symbolic_link, w)),
                            fs_copyFileSync := (\<lambda>src dst flags w. (Inl ENOENT, w)) \<rparr>"

definition keep_links :: supplied_options where
  "keep_links = \<lparr> supplied_overwrite = None, supplied_followSymlinks = Some False \<rparr>"

section \<open>Properties\<close>


subsection \<open>Facts about the pieces\<close>

lemma perform_eq:
  "perform c prim s = (fst (prim (world s)), s\<lparr>world := snd (prim (world s)), calls := calls s @ [c]\<rparr>)"
  by (simp add: perform_def split: prod.splits)

lemma deliver_settlement: "fst (deliver src dst evs re s) = settlement evs"
  by (induction src dst evs re s rule: deliver.induct) (auto simp: on_read_error_def split: option.splits)

lemma deliver_world: "world (snd (snd (deliver src dst evs re s))) = world s"
  by (induction src dst evs re s rule: deliver.induct)
     (auto simp: on_read_error_def on_data_def set_writtenBytes_def split: option.splits)

lemma deliver_readError:
  "fst (snd (deliver src dst evs re s)) =
     (case re of
        Some r \<Rightarrow> Some r
      | None \<Rightarrow> map_option (\<lambda>e. CpFileError (''Cannot read from `'' @ src @ ''`: '' @ err_message e) (Some e))
                  (read_failure evs))"
  by (induction src dst evs re s rule: deliver.induct)
     (auto simp: on_read_error_def split: option.splits)

lemma deliver_calls:
  "calls (snd (snd (deliver src dst evs re s))) =
     calls s @ (if re = None \<and> read_failure evs \<noteq> None then [WriteStreamEnd dst] else [])"
  by (induction src dst evs re s rule: deliver.induct)
     (auto simp: on_read_error_def on_data_def set_writtenBytes_def split: option.splits)

lemma cpFileAsync_stream_branch:
  assumes "fs_lstat ops source (world s) = (Inr stat, w1)"
    and "\<not> (isSymbolicLink stat \<and> \<not> followSymlinks opts)"
  shows "cpFileAsync ops source destination opts s =
           (case copy_stream ops source destination opts
                   (set_size (size_st stat) (s\<lparr>world := w1, calls := calls s @ [Lstat source]\<rparr>)) of
              (Throw e, s3) \<Rightarrow> (Rejected e, s3)
            | (Hang, s3) \<Rightarrow> (Pending, s3)
            | (Continue shouldUpdateStats, s3) \<Rightarrow>
                if shouldUpdateStats then update_stats ops source destination s3
                else (Fulfilled (), s3))"
  using assms by (auto simp: cpFileAsync_def perform_eq Let_def)

lemma cpFileAsync_link_branch:
  assumes "fs_lstat ops source (world s) = (Inr stat, w1)"
    and "isSymbolicLink stat" and "\<not> followSymlinks opts"
  shows "cpFileAsync ops source destination opts s =
           (case copy_link ops source destination opts
                   (set_size (size_st stat) (s\<lparr>world := w1, calls := calls s @ [Lstat source]\<rparr>)) of
              (Throw e, s3) \<Rightarrow> (Rejected e, s3)
            | (Hang, s3) \<Rightarrow> (Pending, s3)
            | (Continue shouldUpdateStats, s3) \<Rightarrow>
                if shouldUpdateStats then update_stats ops source destination s3
                else (Fulfilled (), s3))"
  using assms by (auto simp: cpFileAsync_def perform_eq Let_def)

lemma update_stats_extends: "\<exists>rest. calls (snd (update_stats ops source destination s)) = calls s @ rest"
  by (simp add: update_stats_def perform_eq split: prod.splits sum.splits)

lemma copy_stream_piped:
  assumes "fs_createReadStream ops source (world s) = (Inr u, w2)"
    and "fs_makeDir ops (path_dirname ops destination) w2 = (Inr v, w3)"
    and "fs_createWriteStream ops destination (if overwrite opts then ''w'' else ''wx'') w3 = (x, w4)"
    and "stream_events ops source destination w4 = (evs, w5)"
    and "s4 = s\<lparr>world := w5,
                  calls := calls s @ [CreateReadStream source, MakeDir (path_dirname ops destination),
                             CreateWriteStream destination (if overwrite opts then ''w'' else ''wx''),
                             Pipe source destination]\<rparr>"
    and "s5 = snd (snd (deliver source destination evs None s4))"
  shows "copy_stream ops source destination opts s =
           (case settlement evs of
              Unsettled \<Rightarrow> (Hang, s5)
            | Failed error \<Rightarrow>
                (Throw (CpFileError (''Cannot write to `'' @ destination @ ''`: '' @ err_message error)
                                    (Some error)), s5)
            | Closed \<Rightarrow>
                (case read_failure evs of
                   Some e \<Rightarrow>
                     (Throw (CpFileError (''Cannot read from `'' @ source @ ''`: '' @ err_message e)
                                         (Some e)),
                      set_writtenBytes (pe_size (progressEmitter s5)) s5)
                 | None \<Rightarrow> (Continue True, set_writtenBytes (pe_size (progressEmitter s5)) s5)))"
proof -
  obtain st re s' where d: "deliver source destination evs None s4 = (st, re, s')"
    by (cases "deliver source destination evs None s4") auto
  have st: "st = settlement evs"
    using deliver_settlement [of source destination evs None s4] d by simp
  have re: "re = map_option (\<lambda>e. CpFileError (''Cannot read from `'' @ source @ ''`: '' @ err_message e) (Some e))
                   (read_failure evs)"
    using deliver_readError [of source destination evs None s4] d by simp
  have s': "s' = s5" using assms(6) d by simp
  have "copy_stream ops source destination opts s =
          (case deliver source destination evs None s4 of
             (Unsettled, readError, t) \<Rightarrow> (Hang, t)
           | (Failed error, readError, t) \<Rightarrow>
               (Throw (CpFileError (''Cannot write to `'' @ destination @ ''`: '' @ err_message error)
                                   (Some error)), t)
           | (Closed, readError, t) \<Rightarrow>
               (let t' = set_writtenBytes (pe_size (progressEmitter t)) t in
                case readError of Some e \<Rightarrow> (Throw e, t') | None \<Rightarrow> (Continue True, t')))"
    using assms(1-5) by (simp add: copy_stream_def perform_eq)
  then show ?thesis
    unfolding d using st re s'
    by (cases "settlement evs"; cases "read_failure evs"; simp add: Let_def)
qed

lemma copy_stream_opens_first:
  assumes "fs_createReadStream ops source (world s) = (Inr u, w2)"
  shows "\<exists>rest. calls (snd (copy_stream ops source destination opts s)) =
           calls s @ [CreateReadStream source, MakeDir (path_dirname ops destination)] @ rest"
proof -
  obtain r w3 where mk: "fs_makeDir ops (path_dirname ops destination) w2 = (r, w3)"
    by (cases "fs_makeDir ops (path_dirname ops destination) w2") auto
  show ?thesis
  proof (cases r)
    case (Inl e)
    with assms mk show ?thesis
      by (simp add: copy_stream_def perform_eq)
  next
    case (Inr v)
    obtain x w4 where cw:
      "fs_createWriteStream ops destination (if overwrite opts then ''w'' else ''wx'') w3 = (x, w4)"
      by (cases "fs_createWriteStream ops destination (if overwrite opts then ''w'' else ''wx'') w3") auto
    obtain evs w5 where ev: "stream_events ops source destination w4 = (evs, w5)"
      by (cases "stream_events ops source destination w4") auto
    show ?thesis
      unfolding copy_stream_piped [OF assms mk [unfolded Inr] cw ev refl refl]
      by (cases "settlement evs"; cases "read_failure evs";
          simp add: deliver_calls set_writtenBytes_def)
  qed
qed


lemma cpFileAsync_streamed:
  assumes "fs_lstat ops source (world s) = (Inr stat, w1)"
    and "\<not> (isSymbolicLink stat \<and> \<not> followSymlinks opts)"
    and "fs_createReadStream ops source w1 = (Inr u, w2)"
    and "fs_makeDir ops (path_dirname ops destination) w2 = (Inr v, w3)"
    and "fs_createWriteStream ops destination (if overwrite opts then ''w'' else ''wx'') w3 = (x, w4)"
    and "stream_events ops source destination w4 = (evs, w5)"
    and "s4 = s\<lparr>world := w5,
                  calls := calls s @ [Lstat source, CreateReadStream source,
                             MakeDir (path_dirname ops destination),
                             CreateWriteStream destination (if overwrite opts then ''w'' else ''wx''),
                             Pipe source destination],
                  progressEmitter := (progressEmitter s)\<lparr>pe_size := Some (size_st stat)\<rparr>\<rparr>"
    and "s5 = snd (snd (deliver source destination evs None s4))"
  shows "cpFileAsync ops source destination opts s =
           (case settlement evs of
              Unsettled \<Rightarrow> (Pending, s5)
            | Failed error \<Rightarrow>
                (Rejected (CpFileError (''Cannot write to `'' @ destination @ ''`: '' @ err_message error)
                                       (Some error)), s5)
            | Closed \<Rightarrow>
                (case read_failure evs of
                   Some e \<Rightarrow>
                     (Rejected (CpFileError (''Cannot read from `'' @ source @ ''`: '' @ err_message e)
                                            (Some e)),
                      set_writtenBytes (pe_size (progressEmitter s5)) s5)
                 | None \<Rightarrow>
                     update_stats ops source destination
                       (set_writtenBytes (pe_size (progressEmitter s5)) s5)))"
proof -
  let ?s1 = "set_size (size_st stat) (s\<lparr>world := w1, calls := calls s @ [Lstat source]\<rparr>)"
  have op: "fs_createReadStream ops source (world ?s1) = (Inr u, w2)"
    using assms(3) by (simp add: set_size_def)
  have s4: "s4 = ?s1\<lparr>world := w5,
                  calls := calls ?s1 @ [CreateReadStream source, MakeDir (path_dirname ops destination),
                             CreateWriteStream destination (if overwrite opts then ''w'' else ''wx''),
                             Pipe source destination]\<rparr>"
    using assms(7) by (simp add: set_size_def)
  show ?thesis
    unfolding cpFileAsync_stream_branch [OF assms(1,2)]
      copy_stream_piped [OF op assms(4,5,6) s4 assms(8)]
    by (cases "settlement evs"; cases "read_failure evs"; simp)
qed

lemma cpFile_given_paths:
  assumes "src \<noteq> []" and "dst \<noteq> []"
  shows "cpFile ops (Some src) (Some dst) opts s =
           (Inr (fst (cpFileAsync ops src dst (normalizeOptions opts)
                        (s\<lparr>progressEmitter := ProgressEmitter (path_resolve ops src) (path_resolve ops dst)\<rparr>))),
            snd (cpFileAsync ops src dst (normalizeOptions opts)
                        (s\<lparr>progressEmitter := ProgressEmitter (path_resolve ops src) (path_resolve ops dst)\<rparr>)))"
  using assms by (simp add: cpFile_def falsy_def Let_def split: prod.splits)

lemma adds_no_readlink_refl: "calls s' = calls s \<Longrightarrow> adds_no_readlink s s'"
  by (simp add: adds_no_readlink_def)

lemma adds_no_readlink_trans:
  "adds_no_readlink s s' \<Longrightarrow> adds_no_readlink s' s'' \<Longrightarrow> adds_no_readlink s s''"
  by (auto simp: adds_no_readlink_def)

lemma adds_no_readlink_new_calls:
  "adds_no_readlink s s' \<Longrightarrow> filter is_ReadlinkSync (new_calls s s') = []"
  by (auto simp: adds_no_readlink_def new_calls_def)

lemma update_stats_no_readlink:
  "adds_no_readlink s (snd (update_stats ops source destination s))"
  by (simp add: update_stats_def perform_eq adds_no_readlink_def split: prod.splits sum.splits)

lemma copy_link_no_readlink:
  "adds_no_readlink s (snd (copy_link ops source destination opts s))"
  by (simp add: copy_link_def perform_eq adds_no_readlink_def set_writtenBytes_def Let_def
        split: prod.splits sum.splits)

lemma copy_stream_no_readlink:
  "adds_no_readlink s (snd (copy_stream ops source destination opts s))"
proof -
  obtain r w2 where op: "fs_createReadStream ops source (world s) = (r, w2)"
    by (cases "fs_createReadStream ops source (world s)") auto
  obtain r' w3 where mk: "fs_makeDir ops (path_dirname ops destination) w2 = (r', w3)"
    by (cases "fs_makeDir ops (path_dirname ops destination) w2") auto
  obtain x w4 where cw:
    "fs_createWriteStream ops destination (if overwrite opts then ''w'' else ''wx'') w3 = (x, w4)"
    by (cases "fs_createWriteStream ops destination (if overwrite opts then ''w'' else ''wx'') w3") auto
  obtain evs w5 where ev: "stream_events ops source destination w4 = (evs, w5)"
    by (cases "stream_events ops source destination w4") auto
  show ?thesis
  proof (cases r)
    case (Inl e)
    with op show ?thesis
      by (simp add: copy_stream_def perform_eq adds_no_readlink_def)
  next
    case open_ok: (Inr u)
    show ?thesis
    proof (cases r')
      case (Inl e)
      with op mk open_ok show ?thesis
        by (simp add: copy_stream_def perform_eq adds_no_readlink_def)
    next
      case (Inr v)
      show ?thesis
        unfolding copy_stream_piped [OF op [unfolded open_ok] mk [unfolded Inr] cw ev refl refl]
        by (cases "settlement evs"; cases "read_failure evs";
            simp add: deliver_calls set_writtenBytes_def adds_no_readlink_def)
    qed
  qed
qed

lemma cpFileAsync_no_readlink:
  "adds_no_readlink s (snd (cpFileAsync ops source destination opts s))"
proof -
  obtain r w1 where ls: "fs_lstat ops source (world s) = (r, w1)"
    by (cases "fs_lstat ops source (world s)") auto
  show ?thesis
  proof (cases r)
    case (Inl e)
    with ls show ?thesis
      by (simp add: cpFileAsync_def perform_eq adds_no_readlink_def)
  next
    case (Inr stat)
    let ?s1 = "set_size (size_st stat) (s\<lparr>world := w1, calls := calls s @ [Lstat source]\<rparr>)"
    have first: "adds_no_readlink s ?s1"
      by (simp add: adds_no_readlink_def set_size_def)
    have rest: "adds_no_readlink ?s1 (snd (case branch of
              (Throw e, s3) \<Rightarrow> (Rejected e, s3)
            | (Hang, s3) \<Rightarrow> (Pending, s3)
            | (Continue shouldUpdateStats, s3) \<Rightarrow>
                if shouldUpdateStats then update_stats ops source destination s3
                else (Fulfilled (), s3)))"
      if "adds_no_readlink ?s1 (snd branch)" for branch :: "flow \<times> 'a state"
    proof (cases branch)
      case (Pair fl s3)
      with that show ?thesis
        using update_stats_no_readlink [of s3 ops source destination]
        by (cases fl) (auto intro: adds_no_readlink_trans)
    qed
    show ?thesis
    proof (cases "isSymbolicLink stat \<and> \<not> followSymlinks opts")
      case True
      then have "isSymbolicLink stat" and "\<not> followSymlinks opts" by simp_all
      from cpFileAsync_link_branch [OF ls [unfolded Inr] this] first
        rest [OF copy_link_no_readlink [of ?s1 ops source destination opts]]
      show ?thesis by (auto intro: adds_no_readlink_trans)
    next
      case False
      from cpFileAsync_stream_branch [OF ls [unfolded Inr] False] first
        rest [OF copy_stream_no_readlink [of ?s1 ops source destination opts]]
      show ?thesis by (auto intro: adds_no_readlink_trans)
    qed
  qed
qed

lemma cpFile_no_readlink:
  "filter is_ReadlinkSync (new_calls s (snd (cpFile ops sourcePath destinationPath opts s))) = []"
proof (cases "falsy sourcePath \<or> falsy destinationPath")
  case True
  then show ?thesis by (simp add: cpFile_def new_calls_def)
next
  case False
  let ?s0 = "s\<lparr>progressEmitter := ProgressEmitter (path_resolve ops (the sourcePath))
                                                   (path_resolve ops (the destinationPath))\<rparr>"
  have "adds_no_readlink s ?s0" by (simp add: adds_no_readlink_def)
  from adds_no_readlink_trans [OF this
      cpFileAsync_no_readlink [of ?s0 ops "the sourcePath" "the destinationPath" "normalizeOptions opts"]]
  have "adds_no_readlink s (snd (cpFile ops sourcePath destinationPath opts s))"
    using False by (auto simp: cpFile_def Let_def split: prod.splits)
  then show ?thesis by (rule adds_no_readlink_new_calls)
qed

lemma link_copy_exists_is_raised:
  assumes "fs_lstat ops source (world s) = (Inr stat, w1)"
    and "isSymbolicLink stat" and "\<not> followSymlinks opts"
    and "\<not> overwrite opts"
    and "fs_copyFileSync ops source destination COPYFILE_EXCL w1 = (Inl e, w2)"
    and "err_code e = Some ''EEXIST''"
  shows "cpFileAsync ops source destination opts s =
           (Rejected (CpFileError (''Cannot write to `'' @ destination @ ''`: '' @ err_message e) (Some e)),
            s\<lparr>world := w2, calls := calls s @ [Lstat source, CopyFileSync source destination COPYFILE_EXCL],
              progressEmitter := (progressEmitter s)\<lparr>pe_size := Some (size_st stat)\<rparr>\<rparr>)"
  unfolding cpFileAsync_link_branch [OF assms(1,2,3)]
  using assms(4,5,6) by (simp add: copy_link_def perform_eq set_size_def)

lemma link_copy_other_failure_is_absorbed:
  assumes "fs_lstat ops source (world s) = (Inr stat, w1)"
    and "isSymbolicLink stat" and "\<not> followSymlinks opts"
    and "flags = (if overwrite opts then NoFlags else COPYFILE_EXCL)"
    and "fs_copyFileSync ops source destination flags w1 = (Inl e, w2)"
    and "overwrite opts \<or> err_code e \<noteq> Some ''EEXIST''"
  shows "cpFileAsync ops source destination opts s =
           update_stats ops source destination
             (s\<lparr>world := w2, calls := calls s @ [Lstat source, CopyFileSync source destination flags],
                progressEmitter := (progressEmitter s)\<lparr>pe_size := Some (size_st stat),
                                                       pe_writtenBytes := Some (size_st stat)\<rparr>\<rparr>)"
  unfolding cpFileAsync_link_branch [OF assms(1,2,3)]
  using assms(4,5,6) by (auto simp: copy_link_def perform_eq set_size_def set_writtenBytes_def)

lemma metadata_update_needs_both:
  assumes "fs_lstat ops source (world s) = (Inr stats, w1)"
    and "fs_utimes ops destination (atime stats) (mtime stats) w1 = (r1, w2)"
    and "fs_chmod ops destination (mode stats) w2 = (r2, w3)"
  shows "new_calls s (snd (update_stats ops source destination s)) =
           [Lstat source, Utimes destination (atime stats) (mtime stats),
            Chmod destination (mode stats)]
       \<and> (fst (update_stats ops source destination s) = Fulfilled ()) = (\<not> isl r1 \<and> \<not> isl r2)
       \<and> (isl r1 \<or> isl r2 \<longrightarrow> (\<exists>e. fst (update_stats ops source destination s) = Rejected e))"
proof -
  have "update_stats ops source destination s =
          (promise_all2 (chmod_rejects_first ops w3) r1 r2,
           s\<lparr>world := w3,
             calls := calls s @ [Lstat source, Utimes destination (atime stats) (mtime stats),
                                 Chmod destination (mode stats)]\<rparr>)"
    using assms by (simp add: update_stats_def perform_eq)
  then show ?thesis
    by (cases r1; cases r2) (simp_all add: new_calls_def promise_all2_def)
qed

lemma sync_until_copy:
  assumes "src \<noteq> []" and "dst \<noteq> []"
    and "fs_lstatSync ops src (world s) = (Inr stat, w1)"
    and "\<not> isDirectory stat"
    and "(if isSymbolicLink stat \<and> followSymlinks (normalizeOptions opts)
          then fsReadlinkSync ops src w1 else (Inr src, w1)) = (Inr src', w2)"
    and "fs_makeDirSync ops (path_dirname ops dst) w2 = (Inr u, w3)"
    and "flags = (if overwrite (normalizeOptions opts) then NoFlags else COPYFILE_EXCL)"
    and "s3 = s\<lparr>world := w3,
                  calls := calls s @ [LstatSync src]
                    @ (if isSymbolicLink stat \<and> followSymlinks (normalizeOptions opts)
                       then [ReadlinkSync src] else [])
                    @ [MakeDirSync (path_dirname ops dst)]\<rparr>"
  shows "sync ops (Some src) (Some dst) opts s =
           (case perform (CopyFileSync src' dst flags) (fs_copyFileSync ops src' dst flags) s3 of
              (Inl error, s4) \<Rightarrow>
                if \<not> overwrite (normalizeOptions opts) \<and> err_code error = Some ''EEXIST''
                then (Inr (), s4) else (Inl error, s4)
            | (Inr _, s4) \<Rightarrow>
                perform (UtimesSync dst (atime stat) (mtime stat))
                        (fs_utimesSync ops dst (atime stat) (mtime stat)) s4)"
proof (cases "isSymbolicLink stat \<and> followSymlinks (normalizeOptions opts)")
  case True
  with assms show ?thesis
    by (simp add: sync_def falsy_def perform_eq checkSourceIsFile_def Let_def split: sum.splits)
next
  case False
  with assms show ?thesis
    by (auto simp: sync_def falsy_def perform_eq checkSourceIsFile_def Let_def split: sum.splits)
qed

subsection \<open>Missing arguments\<close>

text \<open>
  Claim C7. For every call with a missing or empty source or destination path, both entry
  points signal a configuration error without touching the filesystem: the asynchronous
  entry point returns a rejected promise (it does not throw), the synchronous one throws.
  The state after the call is the state before it: no primitive ran and nothing was logged.
\<close>

theorem missing_path_is_configuration_error:
  assumes "falsy sourcePath \<or> falsy destinationPath"
  shows "cpFile ops sourcePath destinationPath opts s =
           (Inr (Rejected (CpFileError ''`source` and `destination` required'' None)), s)
       \<and> sync ops sourcePath destinationPath opts s =
           (Inl (CpFileError ''`source` and `destination` required'' None), s)"
  using assms by (simp add: cpFile_def sync_def)

theorem missing_path_is_configuration_error_witness:
  "(falsy (Some ''a.txt'') \<or> falsy (Some []))
   \<and> cpFile ok_ops (Some ''a.txt'') (Some []) no_options start =
       (Inr (Rejected (JsError ''`source` and `destination` required'' None None None None)), start)
   \<and> sync ok_ops (Some ''a.txt'') (Some []) no_options start =
       (Inl (JsError ''`source` and `destination` required'' None None None None), start)"
  using missing_path_is_configuration_error [of "Some ''a.txt''" "Some []" ok_ops no_options start]
  by (simp add: falsy_def CpFileError_def)

subsection \<open>The synchronous copy\<close>

text \<open>
  Claim C5. A synchronous copy (both paths given) whose source stats as a directory throws an
  error with code \<open>EISDIR\<close> and errno \<open>-21\<close> that names the source, and the only primitive
  that ran is the stat: the parent directory of the destination is not created and no copy
  is attempted.
\<close>

theorem sync_rejects_directory:
  assumes "src \<noteq> []" and "dst \<noteq> []"
    and "fs_lstatSync ops src (world s) = (Inr stat, w1)"
    and "isDirectory stat"
  shows "sync ops (Some src) (Some dst) opts s =
           (Inl (JsError (''EISDIR: illegal operation on a directory '' @ rsquo @ src @ rsquo)
                         (Some ''EISDIR'') (Some (- 21)) (Some src) None),
            s\<lparr>world := w1, calls := calls s @ [LstatSync src]\<rparr>)"
  using assms
  by (simp add: sync_def falsy_def perform_eq checkSourceIsFile_def CpFileError_def)

theorem sync_rejects_directory_witness:
  "''photos'' \<noteq> [] \<and> ''out/copy'' \<noteq> []
   \<and> fs_lstatSync (ok_ops\<lparr>fs_lstatSync := (\<lambda>p w. (Inr directory, w))\<rparr>) ''photos'' (world start)
       = (Inr directory, [])
   \<and> isDirectory directory
   \<and> sync (ok_ops\<lparr>fs_lstatSync := (\<lambda>p w. (Inr directory, w))\<rparr>)
           (Some ''photos'') (Some ''out/copy'') no_options start
       = (Inl (JsError (''EISDIR: illegal operation on a directory '' @ rsquo @ ''photos'' @ rsquo)
                       (Some ''EISDIR'') (Some (- 21)) (Some ''photos'') None),
          start\<lparr>calls := [LstatSync ''photos'']\<rparr>)"
  using sync_rejects_directory [of "''photos''" "''out/copy''"
      "ok_ops\<lparr>fs_lstatSync := (\<lambda>p w. (Inr directory, w))\<rparr>" start directory "[]" no_options]
  by (simp add: ok_ops_def start_def directory_def)

text \<open>
  Claim C9. In the silent-success case of the synchronous copy (\<open>overwrite\<close> is false and the
  copy fails with \<open>EEXIST\<close>) the function returns straight from the failed copy: the log ends
  with that copy, there is no \<open>UtimesSync\<close>, and the world is the one the failed copy left.
  Hence whatever can be observed of the destination file (content, timestamps, mode) and
  is not changed by the stat, the link resolution, the creation of the parent directory and
  the failed exclusive copy, is not changed by the call.
\<close>

theorem sync_silent_success_leaves_destination:
  assumes "src \<noteq> []" and "dst \<noteq> []"
    and "\<not> overwrite (normalizeOptions opts)"
    and "fs_lstatSync ops src (world s) = (Inr stat, w1)"
    and "\<not> isDirectory stat"
    and "(if isSymbolicLink stat \<and> followSymlinks (normalizeOptions opts)
          then fsReadlinkSync ops src w1 else (Inr src, w1)) = (Inr src', w2)"
    and "fs_makeDirSync ops (path_dirname ops dst) w2 = (Inr u, w3)"
    and "fs_copyFileSync ops src' dst COPYFILE_EXCL w3 = (Inl e, w4)"
    and "err_code e = Some ''EEXIST''"
    and "obs w1 = obs (world s)" and "obs w2 = obs w1" and "obs w3 = obs w2" and "obs w4 = obs w3"
  shows "sync ops (Some src) (Some dst) opts s =
           (Inr (),
            s\<lparr>world := w4,
              calls := calls s @ [LstatSync src]
                @ (if isSymbolicLink stat \<and> followSymlinks (normalizeOptions opts)
                   then [ReadlinkSync src] else [])
                @ [MakeDirSync (path_dirname ops dst), CopyFileSync src' dst COPYFILE_EXCL]\<rparr>)
       \<and> obs (world (snd (sync ops (Some src) (Some dst) opts s))) = obs (world s)"
  unfolding sync_until_copy [OF assms(1,2,4,5,6,7) refl refl]
  using assms(3,8-13) by (simp add: perform_eq)

theorem sync_silent_success_leaves_destination_witness:
  "''a.txt'' \<noteq> [] \<and> ''out/b.txt'' \<noteq> []
   \<and> \<not> overwrite (normalizeOptions keep_existing)
   \<and> fs_lstatSync (ok_ops\<lparr>fs_copyFileSync := (\<lambda>src dst flags w. (Inl EEXIST, w))\<rparr>) ''a.txt''
        (world start) = (Inr regular_file, [])
   \<and> \<not> isDirectory regular_file
   \<and> fs_makeDirSync (ok_ops\<lparr>fs_copyFileSync := (\<lambda>src dst flags w. (Inl EEXIST, w))\<rparr>) ''out'' []
        = (Inr (), [MakeDirSync ''out''])
   \<and> fs_copyFileSync (ok_ops\<lparr>fs_copyFileSync := (\<lambda>src dst flags w. (Inl EEXIST, w))\<rparr>)
        ''a.txt'' ''out/b.txt'' COPYFILE_EXCL [MakeDirSync ''out''] = (Inl EEXIST, [MakeDirSync ''out''])
   \<and> err_code EEXIST = Some ''EEXIST''
   \<and> sync (ok_ops\<lparr>fs_copyFileSync := (\<lambda>src dst flags w. (Inl EEXIST, w))\<rparr>)
        (Some ''a.txt'') (Some ''out/b.txt'') keep_existing start
      = (Inr (),
         start\<lparr>world := [MakeDirSync ''out''],
               calls := [LstatSync ''a.txt'', MakeDirSync ''out'',
                         CopyFileSync ''a.txt'' ''out/b.txt'' COPYFILE_EXCL]\<rparr>)
   \<and> filter (writes_file ''out/b.txt'')
        (world (snd (sync (ok_ops\<lparr>fs_copyFileSync := (\<lambda>src dst flags w. (Inl EEXIST, w))\<rparr>)
                      (Some ''a.txt'') (Some ''out/b.txt'') keep_existing start)))
      = filter (writes_file ''out/b.txt'') (world start)"
  using sync_silent_success_leaves_destination
    [of "''a.txt''" "''out/b.txt''" keep_existing
        "ok_ops\<lparr>fs_copyFileSync := (\<lambda>src dst flags w. (Inl EEXIST, w))\<rparr>" start regular_file "[]"
        "''a.txt''" "[]" "()" "[MakeDirSync ''out'']" EEXIST "[MakeDirSync ''out'']"
        "filter (writes_file ''out/b.txt'')"]
  by (simp add: ok_ops_def start_def regular_file_def normalizeOptions_def keep_existing_def
        EEXIST_def dirname_posix_def)

text \<open>
  Claim C10. In the synchronous copy of a symbolic link with \<open>followSymlinks\<close> true, the
  timestamps given to the destination are those of the one stat the function makes, which
  is the link-aware stat of the path the caller passed (the link), taken before the source
  is replaced by the link's target. The target is never statted.
\<close>

theorem sync_followed_link_gets_link_timestamps:
  assumes "src \<noteq> []" and "dst \<noteq> []"
    and "fs_lstatSync ops src (world s) = (Inr stat, w1)"
    and "\<not> isDirectory stat"
    and "isSymbolicLink stat" and "followSymlinks (normalizeOptions opts)"
    and "fsReadlinkSync ops src w1 = (Inr target, w2)"
    and "fs_makeDirSync ops (path_dirname ops dst) w2 = (Inr u, w3)"
    and "flags = (if overwrite (normalizeOptions opts) then NoFlags else COPYFILE_EXCL)"
    and "fs_copyFileSync ops target dst flags w3 = (Inr v, w4)"
  shows "sync ops (Some src) (Some dst) opts s =
           (fst (fs_utimesSync ops dst (atime stat) (mtime stat) w4),
            s\<lparr>world := snd (fs_utimesSync ops dst (atime stat) (mtime stat) w4),
              calls := calls s @ [LstatSync src, ReadlinkSync src, MakeDirSync (path_dirname ops dst),
                                  CopyFileSync target dst flags,
                                  UtimesSync dst (atime stat) (mtime stat)]\<rparr>)"
proof -
  have "(if isSymbolicLink stat \<and> followSymlinks (normalizeOptions opts)
         then fsReadlinkSync ops src w1 else (Inr src, w1)) = (Inr target, w2)"
    using assms(5,6,7) by simp
  from sync_until_copy [OF assms(1,2,3,4) this assms(8,9) refl] assms(5,6,10)
  show ?thesis by (simp add: perform_eq)
qed

theorem sync_followed_link_gets_link_timestamps_witness:
  "''link'' \<noteq> [] \<and> ''out/b.txt'' \<noteq> []
   \<and> fs_lstatSync (ok_ops\<lparr>fs_lstatSync :=
          (\<lambda>p w. (Inr (if p = ''link'' then symbolic_link else regular_file), w))\<rparr>) ''link'' (world start)
        = (Inr symbolic_link, [])
   \<and> \<not> isDirectory symbolic_link \<and> isSymbolicLink symbolic_link
   \<and> followSymlinks (normalizeOptions no_options)
   \<and> sync (ok_ops\<lparr>fs_lstatSync :=
          (\<lambda>p w. (Inr (if p = ''link'' then symbolic_link else regular_file), w))\<rparr>)
        (Some ''link'') (Some ''out/b.txt'') no_options start
      = (Inr (),
         start\<lparr>world := [MakeDirSync ''out'', CopyFileSync ''target.txt'' ''out/b.txt'' NoFlags,
                         UtimesSync ''out/b.txt'' 30 40],
               calls := [LstatSync ''link'', ReadlinkSync ''link'', MakeDirSync ''out'',
                         CopyFileSync ''target.txt'' ''out/b.txt'' NoFlags,
                         UtimesSync ''out/b.txt'' 30 40]\<rparr>)
   \<and> (atime regular_file, mtime regular_file) = (1000, 2000)"
  using sync_followed_link_gets_link_timestamps
    [of "''link''" "''out/b.txt''"
        "ok_ops\<lparr>fs_lstatSync :=
          (\<lambda>p w. (Inr (if p = ''link'' then symbolic_link else regular_file), w))\<rparr>"
        start symbolic_link "[]" no_options "''target.txt''" "[]" "()" "[MakeDirSync ''out'']" NoFlags
        "()" "[MakeDirSync ''out'', CopyFileSync ''target.txt'' ''out/b.txt'' NoFlags]"]
  by (simp add: ok_ops_def start_def regular_file_def symbolic_link_def normalizeOptions_def
        no_options_def dirname_posix_def)

text \<open>
  Claim C6. When the source is a symbolic link and \<open>followSymlinks\<close> is true, the
  synchronous copy reads the link's target with \<^verbatim>\<open>readlinkSync\<close> and copies from that
  path instead of from the link. The asynchronous entry point never resolves a link: in no
  run, with whatever arguments, does it call \<^verbatim>\<open>readlinkSync\<close>.
\<close>

theorem sync_resolves_link_async_never:
  assumes "src \<noteq> []" and "dst \<noteq> []"
    and "fs_lstatSync ops src (world s) = (Inr stat, w1)"
    and "\<not> isDirectory stat"
    and "isSymbolicLink stat" and "followSymlinks (normalizeOptions opts)"
    and "fsReadlinkSync ops src w1 = (Inr target, w2)"
    and "fs_makeDirSync ops (path_dirname ops dst) w2 = (Inr u, w3)"
  shows "take 4 (new_calls s (snd (sync ops (Some src) (Some dst) opts s))) =
           [LstatSync src, ReadlinkSync src, MakeDirSync (path_dirname ops dst),
            CopyFileSync target dst
              (if overwrite (normalizeOptions opts) then NoFlags else COPYFILE_EXCL)]
       \<and> filter is_ReadlinkSync
           (new_calls s' (snd (cpFile ops' sourcePath destinationPath opts' s'))) = []"
proof -
  have "(if isSymbolicLink stat \<and> followSymlinks (normalizeOptions opts)
         then fsReadlinkSync ops src w1 else (Inr src, w1)) = (Inr target, w2)"
    using assms(5,6,7) by simp
  from sync_until_copy [OF assms(1,2,3,4) this assms(8) refl refl] assms(5,6)
  have "take 4 (new_calls s (snd (sync ops (Some src) (Some dst) opts s))) =
           [LstatSync src, ReadlinkSync src, MakeDirSync (path_dirname ops dst),
            CopyFileSync target dst
              (if overwrite (normalizeOptions opts) then NoFlags else COPYFILE_EXCL)]"
    by (simp add: perform_eq new_calls_def split: sum.splits)
  with cpFile_no_readlink [of s' ops' sourcePath destinationPath opts'] show ?thesis by simp
qed

theorem sync_resolves_link_async_never_witness:
  "''link'' \<noteq> [] \<and> ''out/b.txt'' \<noteq> []
   \<and> fs_lstatSync (ok_ops\<lparr>fs_lstatSync := (\<lambda>p w. (Inr symbolic_link, w)),
                           fs_lstat := (\<lambda>p w. (Inr symbolic_link, w))\<rparr>) ''link'' (world start)
        = (Inr symbolic_link, [])
   \<and> \<not> isDirectory symbolic_link \<and> isSymbolicLink symbolic_link
   \<and> followSymlinks (normalizeOptions no_options)
   \<and> new_calls start (snd (sync (ok_ops\<lparr>fs_lstatSync := (\<lambda>p w. (Inr symbolic_link, w)),
                                         fs_lstat := (\<lambda>p w. (Inr symbolic_link, w))\<rparr>)
                               (Some ''link'') (Some ''out/b.txt'') no_options start))
      = [LstatSync ''link'', ReadlinkSync ''link'', MakeDirSync ''out'',
         CopyFileSync ''target.txt'' ''out/b.txt'' NoFlags, UtimesSync ''out/b.txt'' 30 40]
   \<and> new_calls start (snd (cpFile (ok_ops\<lparr>fs_lstatSync := (\<lambda>p w. (Inr symbolic_link, w)),
                                           fs_lstat := (\<lambda>p w. (Inr symbolic_link, w))\<rparr>)
                               (Some ''link'') (Some ''out/b.txt'') no_options start))
      = [Lstat ''link'', CreateReadStream ''link'', MakeDir ''out'',
         CreateWriteStream ''out/b.txt'' ''w'', Pipe ''link'' ''out/b.txt'',
         Lstat ''link'', Utimes ''out/b.txt'' 30 40, Chmod ''out/b.txt'' 511]"
  using sync_resolves_link_async_never
    [of "''link''" "''out/b.txt''"
        "ok_ops\<lparr>fs_lstatSync := (\<lambda>p w. (Inr symbolic_link, w)),
                fs_lstat := (\<lambda>p w. (Inr symbolic_link, w))\<rparr>"
        start symbolic_link "[]" no_options "''target.txt''" "[]" "()" "[MakeDirSync ''out'']"
        start "ok_ops\<lparr>fs_lstatSync := (\<lambda>p w. (Inr symbolic_link, w)),
                fs_lstat := (\<lambda>p w. (Inr symbolic_link, w))\<rparr>"
        "Some ''link''" "Some ''out/b.txt''" no_options]
  by (simp add: ok_ops_def start_def symbolic_link_def normalizeOptions_def no_options_def
        dirname_posix_def sync_def cpFile_def cpFileAsync_def copy_stream_def update_stats_def
        perform_eq falsy_def checkSourceIsFile_def new_calls_def set_size_def set_writtenBytes_def
        on_data_def promise_all2_def ProgressEmitter_def Let_def)

subsection \<open>The asynchronous copy\<close>

text \<open>
  Claim C8. In the streaming branch the read stream is opened, and its opening awaited,
  before the parent directory of the destination is created: when the source cannot be
  opened the promise is rejected with only the stat and the open in the log (no directory
  created, no write stream), and the world is the one the failed open left; when it can be
  opened, the directory creation is the very next call.
\<close>

theorem unreadable_source_leaves_destination_alone:
  assumes "fs_lstat ops source (world s) = (Inr stat, w1)"
    and "\<not> (isSymbolicLink stat \<and> \<not> followSymlinks opts)"
    and "fs_createReadStream ops source w1 = (r, w2)"
  shows "case r of
           Inl e \<Rightarrow>
             cpFileAsync ops source destination opts s =
               (Rejected e,
                (set_size (size_st stat) s)
                  \<lparr>world := w2, calls := calls s @ [Lstat source, CreateReadStream source]\<rparr>)
         | Inr _ \<Rightarrow>
             take 3 (new_calls s (snd (cpFileAsync ops source destination opts s))) =
               [Lstat source, CreateReadStream source, MakeDir (path_dirname ops destination)]"
proof (cases r)
  case (Inl e)
  with assms(3) show ?thesis
    unfolding cpFileAsync_stream_branch [OF assms(1,2)]
    by (simp add: copy_stream_def perform_eq set_size_def)
next
  case (Inr u)
  let ?s1 = "set_size (size_st stat) (s\<lparr>world := w1, calls := calls s @ [Lstat source]\<rparr>)"
  have "fs_createReadStream ops source (world ?s1) = (Inr u, w2)"
    using assms(3) Inr by (simp add: set_size_def)
  from copy_stream_opens_first [OF this, of destination opts]
  obtain rest where rest: "calls (snd (copy_stream ops source destination opts ?s1)) =
      calls s @ [Lstat source, CreateReadStream source, MakeDir (path_dirname ops destination)] @ rest"
    by (auto simp: set_size_def)
  obtain fl s3 where cs: "copy_stream ops source destination opts ?s1 = (fl, s3)"
    by (cases "copy_stream ops source destination opts ?s1") auto
  have "\<exists>rest'. calls (snd (cpFileAsync ops source destination opts s)) =
          calls s @ [Lstat source, CreateReadStream source, MakeDir (path_dirname ops destination)] @ rest'"
    unfolding cpFileAsync_stream_branch [OF assms(1,2)] cs
    using rest cs update_stats_extends [of ops source destination s3]
    by (cases fl) auto
  with Inr show ?thesis by (auto simp: new_calls_def)
qed


theorem unreadable_source_leaves_destination_alone_witness:
  "fs_lstat (ok_ops\<lparr>fs_createReadStream := (\<lambda>p w. (Inl ENOENT, w))\<rparr>) ''gone.txt'' (world start)
     = (Inr regular_file, [])
   \<and> \<not> (isSymbolicLink regular_file \<and> \<not> followSymlinks (normalizeOptions no_options))
   \<and> fs_createReadStream (ok_ops\<lparr>fs_createReadStream := (\<lambda>p w. (Inl ENOENT, w))\<rparr>) ''gone.txt'' []
     = (Inl ENOENT, [])
   \<and> cpFileAsync (ok_ops\<lparr>fs_createReadStream := (\<lambda>p w. (Inl ENOENT, w))\<rparr>)
        ''gone.txt'' ''out/copy.txt'' (normalizeOptions no_options) start
     = (Rejected ENOENT,
        \<lparr> world = [], calls = [Lstat ''gone.txt'', CreateReadStream ''gone.txt''],
          progressEmitter = \<lparr> pe_sourcePath = [], pe_destinationPath = [],
                              pe_size = Some 5, pe_writtenBytes = None \<rparr> \<rparr>)"
  using unreadable_source_leaves_destination_alone
    [of "ok_ops\<lparr>fs_createReadStream := (\<lambda>p w. (Inl ENOENT, w))\<rparr>" "''gone.txt''" start
        regular_file "[]" "normalizeOptions no_options" "Inl ENOENT" "[]" "''out/copy.txt''"]
  by (simp add: ok_ops_def start_def regular_file_def normalizeOptions_def no_options_def
        set_size_def ProgressEmitter_def)

text \<open>
  Claim C3. In the streaming branch, when the read stream fails (before the write stream
  settles), the failure is recorded and the write stream is ended, and nothing is raised
  until the write stream settles: if it never settles the promise stays pending; if the
  write stream fails too, the promise is rejected with the wrapped write failure; and only
  if the write stream closes is it rejected with the recorded, wrapped read failure.
\<close>

theorem read_failure_waits_for_write_stream:
  assumes "fs_lstat ops source (world s) = (Inr stat, w1)"
    and "\<not> (isSymbolicLink stat \<and> \<not> followSymlinks opts)"
    and "fs_createReadStream ops source w1 = (Inr u, w2)"
    and "fs_makeDir ops (path_dirname ops destination) w2 = (Inr v, w3)"
    and "fs_createWriteStream ops destination (if overwrite opts then ''w'' else ''wx'') w3 = (x, w4)"
    and "stream_events ops source destination w4 = (evs, w5)"
    and "read_failure evs = Some re"
  shows "fst (cpFileAsync ops source destination opts s) =
           (case settlement evs of
              Unsettled \<Rightarrow> Pending
            | Failed we \<Rightarrow>
                Rejected (CpFileError (''Cannot write to `'' @ destination @ ''`: '' @ err_message we)
                                      (Some we))
            | Closed \<Rightarrow>
                Rejected (CpFileError (''Cannot read from `'' @ source @ ''`: '' @ err_message re)
                                      (Some re)))
       \<and> new_calls s (snd (cpFileAsync ops source destination opts s)) =
           [Lstat source, CreateReadStream source, MakeDir (path_dirname ops destination),
            CreateWriteStream destination (if overwrite opts then ''w'' else ''wx''),
            Pipe source destination, WriteStreamEnd destination]"
  unfolding cpFileAsync_streamed [OF assms(1-6) refl refl]
  using assms(7)
  by (cases "settlement evs") (simp_all add: new_calls_def deliver_calls set_writtenBytes_def)

theorem read_failure_waits_for_write_stream_witness:
  "fs_lstat (ok_ops\<lparr>stream_events := (\<lambda>src dst w. ([Data 2, ReadError EIO, WriteError ENOSPC], w))\<rparr>)
      ''a.txt'' (world start) = (Inr regular_file, [])
   \<and> \<not> (isSymbolicLink regular_file \<and> \<not> followSymlinks (normalizeOptions no_options))
   \<and> read_failure [Data 2, ReadError EIO, WriteError ENOSPC] = Some EIO
   \<and> settlement [Data 2, ReadError EIO, WriteError ENOSPC] = Failed ENOSPC
   \<and> fst (cpFileAsync
            (ok_ops\<lparr>stream_events := (\<lambda>src dst w. ([Data 2, ReadError EIO, WriteError ENOSPC], w))\<rparr>)
            ''a.txt'' ''out/b.txt'' (normalizeOptions no_options) start)
      = Rejected (JsError ''Cannot write to `out/b.txt`: ENOSPC: no space left on device''
                    (Some ''ENOSPC'') None None (Some ENOSPC))
   \<and> new_calls start (snd (cpFileAsync
            (ok_ops\<lparr>stream_events := (\<lambda>src dst w. ([Data 2, ReadError EIO, WriteError ENOSPC], w))\<rparr>)
            ''a.txt'' ''out/b.txt'' (normalizeOptions no_options) start))
      = [Lstat ''a.txt'', CreateReadStream ''a.txt'', MakeDir ''out'',
         CreateWriteStream ''out/b.txt'' ''w'', Pipe ''a.txt'' ''out/b.txt'',
         WriteStreamEnd ''out/b.txt'']"
  using read_failure_waits_for_write_stream
    [of "ok_ops\<lparr>stream_events := (\<lambda>src dst w. ([Data 2, ReadError EIO, WriteError ENOSPC], w))\<rparr>"
        "''a.txt''" start regular_file "[]" "normalizeOptions no_options" "()" "[]"
        "''out/b.txt''" "()" "[MakeDir ''out'']" "()"
        "[MakeDir ''out'', CreateWriteStream ''out/b.txt'' ''w'']"
        "[Data 2, ReadError EIO, WriteError ENOSPC]"
        "[MakeDir ''out'', CreateWriteStream ''out/b.txt'' ''w'']" EIO]
  by (simp add: ok_ops_def start_def regular_file_def normalizeOptions_def no_options_def
        dirname_posix_def CpFileError_def ENOSPC_def EIO_def)

subsection \<open>Copying onto an existing destination without overwriting\<close>

text \<open>
  Claim C2. With \<open>overwrite\<close> false and the destination already there, the two entry points
  differ. The synchronous copy, whose exclusive \<^verbatim>\<open>copyFileSync\<close> fails with \<open>EEXIST\<close>, returns
  without an error. The asynchronous streaming copy opens the write stream with the flags
  \<open>wx\<close>, and when that stream fails with \<open>EEXIST\<close> the promise is rejected with a
  \<open>CpFileError\<close> that names the destination, wraps the failure and carries its code
  \<open>EEXIST\<close>.
\<close>

theorem exclusive_copy_onto_existing:
  assumes "src \<noteq> []" and "dst \<noteq> []"
    and "\<not> overwrite (normalizeOptions opts)"
    \<comment> \<open>the synchronous run\<close>
    and "fs_lstatSync ops src (world s) = (Inr stat, w1)"
    and "\<not> isDirectory stat"
    and "(if isSymbolicLink stat \<and> followSymlinks (normalizeOptions opts)
          then fsReadlinkSync ops src w1 else (Inr src, w1)) = (Inr src', w2)"
    and "fs_makeDirSync ops (path_dirname ops dst) w2 = (Inr u, w3)"
    and "fs_copyFileSync ops src' dst COPYFILE_EXCL w3 = (Inl e, w4)"
    and "err_code e = Some ''EEXIST''"
    \<comment> \<open>the asynchronous run\<close>
    and "fs_lstat ops src (world s) = (Inr astat, v1)"
    and "\<not> (isSymbolicLink astat \<and> \<not> followSymlinks (normalizeOptions opts))"
    and "fs_createReadStream ops src v1 = (Inr u', v2)"
    and "fs_makeDir ops (path_dirname ops dst) v2 = (Inr u'', v3)"
    and "fs_createWriteStream ops dst ''wx'' v3 = (x, v4)"
    and "stream_events ops src dst v4 = (evs, v5)"
    and "settlement evs = Failed we"
    and "err_code we = Some ''EEXIST''"
  shows "fst (sync ops (Some src) (Some dst) opts s) = Inr ()
       \<and> fst (cpFile ops (Some src) (Some dst) opts s) =
           Inr (Rejected (CpFileError (''Cannot write to `'' @ dst @ ''`: '' @ err_message we) (Some we)))
       \<and> err_code (CpFileError (''Cannot write to `'' @ dst @ ''`: '' @ err_message we) (Some we))
           = Some ''EEXIST''
       \<and> CreateWriteStream dst ''wx''
           \<in> set (new_calls s (snd (cpFile ops (Some src) (Some dst) opts s)))"
proof -
  let ?s0 = "s\<lparr>progressEmitter := ProgressEmitter (path_resolve ops src) (path_resolve ops dst)\<rparr>"
  have sync_part: "fst (sync ops (Some src) (Some dst) opts s) = Inr ()"
    unfolding sync_until_copy [OF assms(1,2,4,5,6,7) refl refl]
    using assms(3,8,9) by (simp add: perform_eq)
  have lst: "fs_lstat ops src (world ?s0) = (Inr astat, v1)"
    using assms(10) by simp
  have cw: "fs_createWriteStream ops dst
              (if overwrite (normalizeOptions opts) then ''w'' else ''wx'') v3 = (x, v4)"
    using assms(3,14) by simp
  note run = cpFileAsync_streamed [OF lst assms(11,12,13) cw assms(15) refl refl]
  have async_part: "fst (cpFile ops (Some src) (Some dst) opts s) =
           Inr (Rejected (CpFileError (''Cannot write to `'' @ dst @ ''`: '' @ err_message we) (Some we)))"
    unfolding cpFile_given_paths [OF assms(1,2)] run using assms(16) by simp
  have code_part: "err_code (CpFileError (''Cannot write to `'' @ dst @ ''`: '' @ err_message we) (Some we))
           = Some ''EEXIST''"
    using assms(17) by (simp add: CpFileError_def)
  have flags_part: "CreateWriteStream dst ''wx''
           \<in> set (new_calls s (snd (cpFile ops (Some src) (Some dst) opts s)))"
    unfolding cpFile_given_paths [OF assms(1,2)] run using assms(3,16)
    by (simp add: new_calls_def deliver_calls)
  from sync_part async_part code_part flags_part show ?thesis by simp
qed

theorem exclusive_copy_onto_existing_witness:
  "''a.txt'' \<noteq> [] \<and> ''out/b.txt'' \<noteq> []
   \<and> \<not> overwrite (normalizeOptions keep_existing)
   \<and> fs_copyFileSync (ok_ops\<lparr>fs_copyFileSync := (\<lambda>src dst flags w. (Inl EEXIST, w)),
                              stream_events := (\<lambda>src dst w. ([WriteError EEXIST], w))\<rparr>)
        ''a.txt'' ''out/b.txt'' COPYFILE_EXCL [MakeDirSync ''out''] = (Inl EEXIST, [MakeDirSync ''out''])
   \<and> settlement [WriteError EEXIST] = Failed EEXIST
   \<and> err_code EEXIST = Some ''EEXIST''
   \<and> fst (sync (ok_ops\<lparr>fs_copyFileSync := (\<lambda>src dst flags w. (Inl EEXIST, w)),
                        stream_events := (\<lambda>src dst w. ([WriteError EEXIST], w))\<rparr>)
             (Some ''a.txt'') (Some ''out/b.txt'') keep_existing start) = Inr ()
   \<and> fst (cpFile (ok_ops\<lparr>fs_copyFileSync := (\<lambda>src dst flags w. (Inl EEXIST, w)),
                        stream_events := (\<lambda>src dst w. ([WriteError EEXIST], w))\<rparr>)
             (Some ''a.txt'') (Some ''out/b.txt'') keep_existing start)
      = Inr (Rejected (JsError ''Cannot write to `out/b.txt`: EEXIST: file already exists''
                         (Some ''EEXIST'') None None (Some EEXIST)))
   \<and> CreateWriteStream ''out/b.txt'' ''wx''
        \<in> set (new_calls start
                 (snd (cpFile (ok_ops\<lparr>fs_copyFileSync := (\<lambda>src dst flags w. (Inl EEXIST, w)),
                        stream_events := (\<lambda>src dst w. ([WriteError EEXIST], w))\<rparr>)
             (Some ''a.txt'') (Some ''out/b.txt'') keep_existing start)))"
  using exclusive_copy_onto_existing
    [of "''a.txt''" "''out/b.txt''" keep_existing
        "ok_ops\<lparr>fs_copyFileSync := (\<lambda>src dst flags w. (Inl EEXIST, w)),
                stream_events := (\<lambda>src dst w. ([WriteError EEXIST], w))\<rparr>"
        start regular_file "[]" "''a.txt''" "[]" "()" "[MakeDirSync ''out'']" EEXIST
        "[MakeDirSync ''out'']"
        regular_file "[]" "()" "[]" "()" "[MakeDir ''out'']" "()"
        "[MakeDir ''out'', CreateWriteStream ''out/b.txt'' ''wx'']" "[WriteError EEXIST]"
        "[MakeDir ''out'', CreateWriteStream ''out/b.txt'' ''wx'']" EEXIST]
  by (simp add: ok_ops_def start_def regular_file_def normalizeOptions_def keep_existing_def
        dirname_posix_def CpFileError_def EEXIST_def)

subsection \<open>A failed link copy in the asynchronous path\<close>

text \<open>
  Claim C1. In the branch that copies a symbolic link as a link, a failed copy is raised,
  wrapped and naming the destination, when \<open>overwrite\<close> is false and the code is \<open>EEXIST\<close>
  (lemma \<open>link_copy_exists_is_raised\<close>). A failure with any other code is not raised: the
  \<^verbatim>\<open>catch\<close> block falls through and the function carries on as after a successful copy
  (lemma \<open>link_copy_other_failure_is_absorbed\<close>). In the run below the link's target is
  missing, the copy fails with \<open>ENOENT\<close>, \<open>overwrite\<close> is false, and the promise is
  fulfilled.
\<close>

theorem link_copy_enoent_is_fulfilled:
  "fst (fs_lstat dangling_link_ops ''link'' (world start)) = Inr symbolic_link
   \<and> normalizeOptions keep_links_exclusive = \<lparr> overwrite = False, followSymlinks = False \<rparr>
   \<and> fst (fs_copyFileSync dangling_link_ops ''link'' ''out/b.txt'' COPYFILE_EXCL []) = Inl ENOENT
   \<and> fst (cpFileAsync dangling_link_ops ''link'' ''out/b.txt''
            (normalizeOptions keep_links_exclusive) start) = Fulfilled ()"
  by (simp add: dangling_link_ops_def ok_ops_def start_def symbolic_link_def normalizeOptions_def
        keep_links_exclusive_def cpFileAsync_def copy_link_def update_stats_def perform_eq
        set_size_def set_writtenBytes_def promise_all2_def ENOENT_def Let_def)

text \<open>
  Claim C4. Metadata preservation is attempted after a failed transfer: in the run below
  the link copy fails with \<open>ENOENT\<close>, and the function goes on to stat the source again
  and to start both metadata updates on the destination. (In the streaming branch the
  metadata step is reached only when the write stream closed and no read failure was
  recorded, lemma \<open>cpFileAsync_streamed\<close>; once the fresh stat succeeds, both updates are
  started and a failure of either rejects the promise, lemma \<open>metadata_update_needs_both\<close>.)
\<close>

theorem metadata_updated_after_failed_link_copy:
  "fst (fs_copyFileSync dangling_link_ops ''link'' ''out/b.txt'' NoFlags []) = Inl ENOENT
   \<and> calls (snd (cpFileAsync dangling_link_ops ''link'' ''out/b.txt''
                   (normalizeOptions keep_links) start))
      = [Lstat ''link'', CopyFileSync ''link'' ''out/b.txt'' NoFlags,
         Lstat ''link'', Utimes ''out/b.txt'' 30 40, Chmod ''out/b.txt'' 511]"
  by (simp add: dangling_link_ops_def ok_ops_def start_def symbolic_link_def normalizeOptions_def
        keep_links_def cpFileAsync_def copy_link_def update_stats_def perform_eq
        set_size_def set_writtenBytes_def promise_all2_def ENOENT_def Let_def)

end
